theory Spec2Isabelle
  imports Main "HOL-Library.Word"
begin

section \<open>Storage and cache adapters: a shallow embedding\<close>

text \<open>
  The development follows the Go packages \<^verbatim>\<open>storage\<close>, \<^verbatim>\<open>cache\<close> and \<^verbatim>\<open>config\<close>.
  Strings that the code only stores and hands on (table names, filter fields) are
  \<^typ>\<open>string\<close>. The configuration strings that \<^verbatim>\<open>Validate\<close> trims are lists of
  Unicode code points, because \<^verbatim>\<open>strings.TrimSpace\<close> works on decoded runes.
\<close>

subsection \<open>Option model (storage/storage.go)\<close>

text \<open>
  \<^verbatim>\<open>Limit\<close> and \<^verbatim>\<open>Offset\<close> are Go \<^verbatim>\<open>uint\<close> (64 bits on the supported platforms).
  \<^verbatim>\<open>Result any\<close> is \<^verbatim>\<open>nil\<close> (\<open>None\<close>) or some target \<open>Some r\<close>.
  \<^verbatim>\<open>time.Time\<close> and \<^verbatim>\<open>time.Duration\<close> are only stored, so they are integers.
\<close>

record DeleteOptions =
  Database :: string
  Table :: string
  Key :: string
  Value :: string

record WriteOptions =
  Database :: string
  Table :: string
  Key :: string
  Value :: string
  Expiry :: int
  TTL :: int

record 'r ReadOptions =
  Database :: string
  Table :: string
  Key :: string
  Value :: string
  Prefix :: string
  Suffix :: string
  Limit :: "64 word"
  Offset :: "64 word"
  Result :: "'r option"

type_synonym 'r ReadOption = "'r ReadOptions \<Rightarrow> 'r ReadOptions"
type_synonym WriteOption = "WriteOptions \<Rightarrow> WriteOptions"
type_synonym DeleteOption = "DeleteOptions \<Rightarrow> DeleteOptions"

definition ReadFrom :: "string \<Rightarrow> string \<Rightarrow> 'r ReadOption" where
  "ReadFrom database table = (\<lambda>l. l\<lparr>ReadOptions.Database := database, ReadOptions.Table := table\<rparr>)"

definition ReadKey :: "string \<Rightarrow> 'r ReadOption" where
  "ReadKey val = (\<lambda>l. l\<lparr>ReadOptions.Key := val\<rparr>)"

definition ReadValue :: "string \<Rightarrow> 'r ReadOption" where
  "ReadValue val = (\<lambda>l. l\<lparr>ReadOptions.Value := val\<rparr>)"

definition ReadPrefix :: "string \<Rightarrow> 'r ReadOption" where
  "ReadPrefix val = (\<lambda>l. l\<lparr>Prefix := val\<rparr>)"

definition ReadSuffix :: "string \<Rightarrow> 'r ReadOption" where
  "ReadSuffix val = (\<lambda>l. l\<lparr>Suffix := val\<rparr>)"

definition ReadLimit :: "64 word \<Rightarrow> 'r ReadOption" where
  "ReadLimit val = (\<lambda>l. l\<lparr>Limit := val\<rparr>)"

definition ReadOffset :: "64 word \<Rightarrow> 'r ReadOption" where
  "ReadOffset val = (\<lambda>l. l\<lparr>Offset := val\<rparr>)"

definition ReadResult :: "'r option \<Rightarrow> 'r ReadOption" where
  "ReadResult val = (\<lambda>l. l\<lparr>Result := val\<rparr>)"

definition WriteTo :: "string \<Rightarrow> string \<Rightarrow> WriteOption" where
  "WriteTo database table = (\<lambda>w. w\<lparr>WriteOptions.Database := database, WriteOptions.Table := table\<rparr>)"

definition WriteKey :: "string \<Rightarrow> WriteOption" where
  "WriteKey val = (\<lambda>w. w\<lparr>WriteOptions.Key := val\<rparr>)"

definition WriteValue :: "string \<Rightarrow> WriteOption" where
  "WriteValue val = (\<lambda>w. w\<lparr>WriteOptions.Value := val\<rparr>)"

definition WriteExpiry :: "int \<Rightarrow> WriteOption" where
  "WriteExpiry val = (\<lambda>w. w\<lparr>Expiry := val\<rparr>)"

definition WriteTTL :: "int \<Rightarrow> WriteOption" where
  "WriteTTL val = (\<lambda>w. w\<lparr>TTL := val\<rparr>)"

definition DeleteFrom :: "string \<Rightarrow> string \<Rightarrow> DeleteOption" where
  "DeleteFrom database table = (\<lambda>d. d\<lparr>DeleteOptions.Database := database, DeleteOptions.Table := table\<rparr>)"

definition DeleteKey :: "string \<Rightarrow> DeleteOption" where
  "DeleteKey val = (\<lambda>d. d\<lparr>DeleteOptions.Key := val\<rparr>)"

definition DeleteValue :: "string \<Rightarrow> DeleteOption" where
  "DeleteValue val = (\<lambda>d. d\<lparr>DeleteOptions.Value := val\<rparr>)"

text \<open>
  The zero values that \<^verbatim>\<open>var options ReadOptions\<close> (and its siblings) declare, and the
  loop \<^verbatim>\<open>for _, o := range opts { o(&options) }\<close> that every operation starts with.
\<close>

definition ReadOptions_zero :: "'r ReadOptions" where
  "ReadOptions_zero = \<lparr>ReadOptions.Database = [], ReadOptions.Table = [], ReadOptions.Key = [],
     ReadOptions.Value = [], Prefix = [], Suffix = [], Limit = 0, Offset = 0, Result = None\<rparr>"

definition WriteOptions_zero :: WriteOptions where
  "WriteOptions_zero = \<lparr>WriteOptions.Database = [], WriteOptions.Table = [], WriteOptions.Key = [],
     WriteOptions.Value = [], Expiry = 0, TTL = 0\<rparr>"

definition DeleteOptions_zero :: DeleteOptions where
  "DeleteOptions_zero = \<lparr>DeleteOptions.Database = [], DeleteOptions.Table = [],
     DeleteOptions.Key = [], DeleteOptions.Value = []\<rparr>"

fun apply_opts :: "'o \<Rightarrow> ('o \<Rightarrow> 'o) list \<Rightarrow> 'o" where
  "apply_opts options [] = options"
| "apply_opts options (o1 # opts) = apply_opts (o1 options) opts"

text \<open>
  The builder calls of the option model, as data, so that a statement can range over
  every builder step: \<open>read_step\<close>, \<open>write_step\<close> and \<open>delete_step\<close> give the closure
  each call returns, and \<open>read_sets\<close>, \<open>write_sets\<close> and \<open>delete_sets\<close> list the fields
  which that closure assigns.
\<close>

datatype field = FDatabase | FTable | FKey | FValue | FPrefix | FSuffix | FLimit | FOffset
  | FResult | FExpiry | FTTL

datatype 'r ReadStep = SReadFrom string string | SReadKey string | SReadValue string
  | SReadPrefix string | SReadSuffix string | SReadLimit "64 word" | SReadOffset "64 word"
  | SReadResult "'r option"

datatype WriteStep = SWriteTo string string | SWriteKey string | SWriteValue string
  | SWriteExpiry int | SWriteTTL int

datatype DeleteStep = SDeleteFrom string string | SDeleteKey string | SDeleteValue string

fun read_step :: "'r ReadStep \<Rightarrow> 'r ReadOption" where
  "read_step (SReadFrom d t) = ReadFrom d t"
| "read_step (SReadKey v) = ReadKey v"
| "read_step (SReadValue v) = ReadValue v"
| "read_step (SReadPrefix v) = ReadPrefix v"
| "read_step (SReadSuffix v) = ReadSuffix v"
| "read_step (SReadLimit v) = ReadLimit v"
| "read_step (SReadOffset v) = ReadOffset v"
| "read_step (SReadResult v) = ReadResult v"

fun read_sets :: "'r ReadStep \<Rightarrow> field set" where
  "read_sets (SReadFrom d t) = {FDatabase, FTable}"
| "read_sets (SReadKey v) = {FKey}"
| "read_sets (SReadValue v) = {FValue}"
| "read_sets (SReadPrefix v) = {FPrefix}"
| "read_sets (SReadSuffix v) = {FSuffix}"
| "read_sets (SReadLimit v) = {FLimit}"
| "read_sets (SReadOffset v) = {FOffset}"
| "read_sets (SReadResult v) = {FResult}"

fun write_step :: "WriteStep \<Rightarrow> WriteOption" where
  "write_step (SWriteTo d t) = WriteTo d t"
| "write_step (SWriteKey v) = WriteKey v"
| "write_step (SWriteValue v) = WriteValue v"
| "write_step (SWriteExpiry v) = WriteExpiry v"
| "write_step (SWriteTTL v) = WriteTTL v"

fun write_sets :: "WriteStep \<Rightarrow> field set" where
  "write_sets (SWriteTo d t) = {FDatabase, FTable}"
| "write_sets (SWriteKey v) = {FKey}"
| "write_sets (SWriteValue v) = {FValue}"
| "write_sets (SWriteExpiry v) = {FExpiry}"
| "write_sets (SWriteTTL v) = {FTTL}"

fun delete_step :: "DeleteStep \<Rightarrow> DeleteOption" where
  "delete_step (SDeleteFrom d t) = DeleteFrom d t"
| "delete_step (SDeleteKey v) = DeleteKey v"
| "delete_step (SDeleteValue v) = DeleteValue v"

fun delete_sets :: "DeleteStep \<Rightarrow> field set" where
  "delete_sets (SDeleteFrom d t) = {FDatabase, FTable}"
| "delete_sets (SDeleteKey v) = {FKey}"
| "delete_sets (SDeleteValue v) = {FValue}"

subsection \<open>Errors and outcomes\<close>

text \<open>
  \<^verbatim>\<open>_errInvalidResultOption\<close> and \<^verbatim>\<open>InvalidConfigurationParameterError\<close> are the
  errors that the packages return themselves; their declarations carry no behaviour, so they
  are constructors here. \<open>DriverError\<close> stands for whatever error an external library
  reports. A Go \<^verbatim>\<open>error\<close> result is \<open>error option\<close>, with \<open>None\<close> for \<^verbatim>\<open>nil\<close>.
  A call can also panic, or end the process through \<^verbatim>\<open>log.Fatalln\<close>.
\<close>

datatype error = ErrInvalidResultOption
  | InvalidConfigurationParameterError (Parameter: string) (Reason: string)
  | DriverError nat

datatype 'a outcome = Panics | Fatal error | Returns 'a

subsection \<open>Configuration (package config)\<close>

type_synonym rune = nat
type_synonym gostring = "rune list"

text \<open>
  \<^verbatim>\<open>strings.TrimSpace\<close> of the standard library removes the leading and the trailing
  code points for which \<^verbatim>\<open>unicode.IsSpace\<close> holds; \<open>unicode_IsSpace\<close> is that
  function's table.
\<close>

definition unicode_IsSpace :: "rune \<Rightarrow> bool" where
  "unicode_IsSpace r = (r \<in> {0x09, 0x0A, 0x0B, 0x0C, 0x0D, 0x20, 0x85, 0xA0, 0x1680,
       0x2028, 0x2029, 0x202F, 0x205F, 0x3000} \<or> (0x2000 \<le> r \<and> r \<le> 0x200A))"

definition TrimSpace :: "gostring \<Rightarrow> gostring" where
  "TrimSpace s = rev (dropWhile unicode_IsSpace (rev (dropWhile unicode_IsSpace s)))"

record StorageConfig =
  Type :: int
  URL :: gostring
  DB :: gostring

record CacheConfig =
  Type :: int
  Size :: "64 word"
  Address :: gostring
  Username :: gostring
  Password :: gostring
  Database :: int

text \<open>
  \<^verbatim>\<open>StorageConfig.Validate\<close> trims the two strings in place and returns its error; the
  model returns the error together with the configuration as the call leaves it.
\<close>

definition StorageConfig_Validate :: "StorageConfig \<Rightarrow> error option \<times> StorageConfig" where
  "StorageConfig_Validate p0 =
     (let p = p0\<lparr>URL := TrimSpace (URL p0)\<rparr>;
          p = p\<lparr>DB := TrimSpace (DB p)\<rparr>
      in if StorageConfig.Type p = 1 then
           (if URL p = [] then
              (Some (InvalidConfigurationParameterError ''URL'' ''MongoDB driver expects a valid url''), p)
            else (None, p))
         else
           (if URL p = [] then
              (Some (InvalidConfigurationParameterError ''URL'' ''MongoDB driver expects a valid url''), p)
            else (None, p)))"


subsection \<open>The document driver as the code sees it\<close>

text \<open>
  A \<^verbatim>\<open>context.Context\<close> is the way it was built: the background context, a context
  derived with a timeout (in nanoseconds) or with a cancel function, or the session context
  that the driver's \<^verbatim>\<open>WithSession\<close> derives from the context it is given.
\<close>

datatype ctx = Background | WithTimeout ctx nat | WithCancel ctx | SessionCtx ctx

type_synonym filter = "(string \<times> string) list"

text \<open>
  The calls into the external libraries (mgm and the MongoDB driver), with the arguments the
  code passes. The libraries are not part of the repository: a \<open>driver\<close> gives the error
  that a call returns, depending on the calls made before it, and every operation of the
  store returns its error together with the calls it made, in order.
\<close>

datatype ('p, 'r) call =
    SetDefaultConfig nat gostring gostring
  | Find ctx string filter int int
  | CursorAll ctx 'r
  | CursorClose ctx
  | FindOne ctx string filter
  | Decode 'r
  | StartSession
  | StartTransaction
  | InsertOne ctx string 'p
  | UpdateOne ctx string filter "(string \<times> 'p) list"
  | DeleteOne ctx string filter
  | CommitTransaction ctx
  | EndSession ctx

type_synonym ('p, 'r) driver = "('p, 'r) call list \<Rightarrow> ('p, 'r) call \<Rightarrow> error option"

type_synonym ('p, 'r) result = "error option \<times> ('p, 'r) call list"

text \<open>
  \<^verbatim>\<open>mgm.TransactionWithCtx(ctx, f)\<close> starts a session and a transaction on it, runs
  \<open>f\<close> with the session context derived from \<open>ctx\<close>, and ends the session when it
  returns. It commits nothing by itself: \<open>f\<close> has to.
\<close>

definition TransactionWithCtx ::
  "('p, 'r) driver \<Rightarrow> ctx \<Rightarrow> (('p, 'r) call list \<Rightarrow> ctx \<Rightarrow> ('p, 'r) result) \<Rightarrow> ('p, 'r) result" where
  "TransactionWithCtx drv c f =
     (case drv [] StartSession of
        Some err \<Rightarrow> (Some err, [StartSession])
      | None \<Rightarrow>
          (case drv [StartSession] StartTransaction of
             Some err \<Rightarrow> (Some err, [StartSession, StartTransaction, EndSession c])
           | None \<Rightarrow>
               (let (r, tr) = f [StartSession, StartTransaction] (SessionCtx c)
                in (r, tr @ [EndSession c]))))"

subsection \<open>The document-oriented store (mongoStore)\<close>

text \<open>
  \<^verbatim>\<open>store.Options\<close> of go-micro, as far as the stores use it, and its two option
  functions: \<^verbatim>\<open>store.Database(db)\<close> sets the database name and
  \<^verbatim>\<open>store.Nodes(a...)\<close> replaces the node list by its arguments.
\<close>

record store_Options =
  Nodes :: "gostring list"
  Database :: gostring
  Table :: gostring

type_synonym store_Option = "store_Options \<Rightarrow> store_Options"

definition store_Options_zero :: store_Options where
  "store_Options_zero = \<lparr>Nodes = [], store_Options.Database = [], store_Options.Table = []\<rparr>"

definition store_Database :: "gostring \<Rightarrow> store_Option" where
  "store_Database db = (\<lambda>o1. o1\<lparr>store_Options.Database := db\<rparr>)"

definition store_Nodes :: "gostring list \<Rightarrow> store_Option" where
  "store_Nodes a = (\<lambda>o1. o1\<lparr>Nodes := a\<rparr>)"

text \<open>
  \<^verbatim>\<open>configure\<close> evaluates \<^verbatim>\<open>s.options.Nodes[0]\<close> while it builds the arguments of
  \<^verbatim>\<open>mgm.SetDefaultConfig\<close>: on an empty slice the index panics before the driver is
  called. The timeout is \<^verbatim>\<open>3 * time.Second\<close> in nanoseconds.
\<close>

definition mongo_configure :: "('p, 'r) driver \<Rightarrow> store_Options \<Rightarrow> error option outcome" where
  "mongo_configure drv options =
     (case Nodes options of
        [] \<Rightarrow> Panics
      | node # _ \<Rightarrow>
          Returns (drv [] (SetDefaultConfig (3 * 1000000000) (store_Options.Database options) node)))"

definition mongo_Init ::
  "('p, 'r) driver \<Rightarrow> store_Options \<Rightarrow> store_Option list \<Rightarrow> (error option \<times> store_Options) outcome" where
  "mongo_Init drv options0 opts =
     (let options = apply_opts options0 opts
      in case mongo_configure drv options of
           Panics \<Rightarrow> Panics
         | Fatal err \<Rightarrow> Fatal err
         | Returns err \<Rightarrow> Returns (err, options))"

definition mongo_List :: "('p, 'r) driver \<Rightarrow> ctx \<Rightarrow> 'r ReadOption list \<Rightarrow> ('p, 'r) result" where
  "mongo_List drv c opts =
     (let ops = apply_opts ReadOptions_zero opts;
          find = Find c (ReadOptions.Table ops) [] (sint (Offset ops)) (sint (Limit ops))
      in case drv [] find of
           Some err \<Rightarrow> (Some err, [find])
         | None \<Rightarrow>
             (case Result ops of
                None \<Rightarrow> (Some ErrInvalidResultOption, [find])
              | Some r \<Rightarrow>
                  (case drv [find] (CursorAll c r) of
                     Some err \<Rightarrow> (Some err, [find, CursorAll c r])
                   | None \<Rightarrow>
                       (drv [find, CursorAll c r] (CursorClose c),
                        [find, CursorAll c r, CursorClose c]))))"

definition mongo_Read :: "('p, 'r) driver \<Rightarrow> ctx \<Rightarrow> 'r ReadOption list \<Rightarrow> ('p, 'r) result" where
  "mongo_Read drv c opts =
     (let options = apply_opts ReadOptions_zero opts;
          findOne = FindOne c (ReadOptions.Table options)
                      [(ReadOptions.Key options, ReadOptions.Value options)]
      in case Result options of
           None \<Rightarrow> (Some ErrInvalidResultOption, [findOne])
         | Some r \<Rightarrow> (drv [findOne] (Decode r), [findOne, Decode r]))"

definition mongo_Write ::
  "('p, 'r) driver \<Rightarrow> ctx \<Rightarrow> 'p \<Rightarrow> WriteOption list \<Rightarrow> ('p, 'r) result" where
  "mongo_Write drv c payload opts =
     (let options = apply_opts WriteOptions_zero opts
      in TransactionWithCtx drv c (\<lambda>tr sc.
           let insertOne = InsertOne c (WriteOptions.Table options) payload
           in case drv tr insertOne of
                Some err \<Rightarrow> (Some err, tr @ [insertOne])
              | None \<Rightarrow>
                  (drv (tr @ [insertOne]) (CommitTransaction sc),
                   tr @ [insertOne, CommitTransaction sc])))"

definition mongo_Update ::
  "('p, 'r) driver \<Rightarrow> ctx \<Rightarrow> 'p \<Rightarrow> WriteOption list \<Rightarrow> ('p, 'r) result" where
  "mongo_Update drv c payload opts =
     (let options = apply_opts WriteOptions_zero opts
      in TransactionWithCtx drv c (\<lambda>tr sc.
           let filter = [(WriteOptions.Key options, WriteOptions.Value options)];
               update = [(''$set'', payload)];
               updateOne = UpdateOne c (WriteOptions.Table options) filter update
           in case drv tr updateOne of
                Some err \<Rightarrow> (Some err, tr @ [updateOne])
              | None \<Rightarrow>
                  (drv (tr @ [updateOne]) (CommitTransaction sc),
                   tr @ [updateOne, CommitTransaction sc])))"

text \<open>
  \<^verbatim>\<open>Delete\<close> replaces its parameter \<open>ctx\<close> by
  \<^verbatim>\<open>context.WithTimeout(context.Background(), 3*time.Second)\<close> before it does anything
  with it.
\<close>

definition mongo_Delete :: "('p, 'r) driver \<Rightarrow> ctx \<Rightarrow> DeleteOption list \<Rightarrow> ('p, 'r) result" where
  "mongo_Delete drv c0 opts =
     (let options = apply_opts DeleteOptions_zero opts;
          c = WithTimeout Background (3 * 1000000000)
      in TransactionWithCtx drv c (\<lambda>tr sc.
           let deleteOne = DeleteOne c (DeleteOptions.Table options)
                             [(DeleteOptions.Key options, DeleteOptions.Value options)]
           in case drv tr deleteOne of
                Some err \<Rightarrow> (Some err, tr @ [deleteOne])
              | None \<Rightarrow>
                  (drv (tr @ [deleteOne]) (CommitTransaction sc),
                   tr @ [deleteOne, CommitTransaction sc])))"

subsection \<open>The no-op store (emptyStore)\<close>

definition empty_Init :: "store_Option list \<Rightarrow> error option" where
  "empty_Init opts = None"

definition empty_List :: "ctx \<Rightarrow> 'r ReadOption list \<Rightarrow> ('p, 'r) result" where
  "empty_List c opts = (None, [])"

definition empty_Read :: "ctx \<Rightarrow> 'r ReadOption list \<Rightarrow> ('p, 'r) result" where
  "empty_Read c opts = (None, [])"

definition empty_Write :: "ctx \<Rightarrow> 'p \<Rightarrow> WriteOption list \<Rightarrow> ('p, 'r) result" where
  "empty_Write c payload opts = (None, [])"

definition empty_Update :: "ctx \<Rightarrow> 'p \<Rightarrow> WriteOption list \<Rightarrow> ('p, 'r) result" where
  "empty_Update c payload opts = (None, [])"

definition empty_Delete :: "ctx \<Rightarrow> DeleteOption list \<Rightarrow> ('p, 'r) result" where
  "empty_Delete c opts = (None, [])"

subsection \<open>The store interface and its selector (storage.go)\<close>

text \<open>
  A \<^verbatim>\<open>RefinedStore\<close> that the selector can return is one of the two implementations;
  a \<open>MongoStore\<close> carries its \<^verbatim>\<open>options\<close> field. The methods dispatch on it.
\<close>

datatype RefinedStore = MongoStore store_Options | EmptyStore

definition NewMongoStore :: RefinedStore where
  "NewMongoStore = MongoStore store_Options_zero"

definition NewEmptyStore :: RefinedStore where
  "NewEmptyStore = EmptyStore"

fun store_String :: "RefinedStore \<Rightarrow> string" where
  "store_String (MongoStore options) = ''mongodb''"
| "store_String EmptyStore = ''empty''"

fun store_Init ::
  "('p, 'r) driver \<Rightarrow> RefinedStore \<Rightarrow> store_Option list \<Rightarrow> (error option \<times> RefinedStore) outcome" where
  "store_Init drv (MongoStore options) opts =
     (case mongo_Init drv options opts of
        Panics \<Rightarrow> Panics
      | Fatal err \<Rightarrow> Fatal err
      | Returns (err, options') \<Rightarrow> Returns (err, MongoStore options'))"
| "store_Init drv EmptyStore opts = Returns (empty_Init opts, EmptyStore)"

fun store_List :: "('p, 'r) driver \<Rightarrow> RefinedStore \<Rightarrow> ctx \<Rightarrow> 'r ReadOption list \<Rightarrow> ('p, 'r) result" where
  "store_List drv (MongoStore options) c opts = mongo_List drv c opts"
| "store_List drv EmptyStore c opts = empty_List c opts"

fun store_Read :: "('p, 'r) driver \<Rightarrow> RefinedStore \<Rightarrow> ctx \<Rightarrow> 'r ReadOption list \<Rightarrow> ('p, 'r) result" where
  "store_Read drv (MongoStore options) c opts = mongo_Read drv c opts"
| "store_Read drv EmptyStore c opts = empty_Read c opts"

text \<open>
  \<^verbatim>\<open>NewStorage\<close> picks the implementation, initialises it with the database name and
  with the URL as the only node, and ends the process (\<^verbatim>\<open>log.Fatalln\<close>) when
  \<^verbatim>\<open>Init\<close> returns an error.
\<close>

definition NewStorage :: "('p, 'r) driver \<Rightarrow> StorageConfig \<Rightarrow> RefinedStore outcome" where
  "NewStorage drv config =
     (let s = (if StorageConfig.Type config = 1 then NewMongoStore else NewEmptyStore)
      in case store_Init drv s [store_Database (DB config), store_Nodes [URL config]] of
           Panics \<Rightarrow> Panics
         | Fatal err \<Rightarrow> Fatal err
         | Returns (Some err, s') \<Rightarrow> Fatal err
         | Returns (None, s') \<Rightarrow> Returns s')"

subsection \<open>The cache selector (cache.go)\<close>

text \<open>
  The two marshalers are built by external libraries; a \<open>Marshaler\<close> records which one
  was built and from which arguments. \<^verbatim>\<open>newMemory(size)\<close> allocates
  \<^verbatim>\<open>size*1024*1024\<close> bytes (Go \<^verbatim>\<open>int\<close> arithmetic) with a default expiration of
  ten seconds.
\<close>

datatype Marshaler = FreecacheMarshaler "64 word" nat
  | RedisMarshaler gostring gostring gostring int

definition newMemory :: "64 word \<Rightarrow> Marshaler" where
  "newMemory sz = FreecacheMarshaler (sz * 1024 * 1024) (10 * 1000000000)"

definition newRedis :: "gostring \<Rightarrow> gostring \<Rightarrow> gostring \<Rightarrow> int \<Rightarrow> Marshaler" where
  "newRedis address username password db = RedisMarshaler address username password db"

record CustomCache =
  store :: Marshaler
  name :: string

definition NewCache :: "CacheConfig \<Rightarrow> CustomCache" where
  "NewCache config =
     (if CacheConfig.Type config = 1 then
        \<lparr>store = newMemory (Size config), name = ''Freecache''\<rparr>
      else if CacheConfig.Type config = 2 then
        \<lparr>store = newRedis (Address config) (Username config) (Password config)
                   (CacheConfig.Database config),
         name = ''Redis''\<rparr>
      else
        \<lparr>store = newMemory (Size config), name = ''Freecache''\<rparr>)"

subsection \<open>Configuration constructors (package config)\<close>



subsection \<open>Observations on the calls\<close>

text \<open>
  The context argument of a call, where it has one; whether a call is one of the three
  document operations; and a driver on which every call succeeds.
\<close>

fun ctx_of :: "('p, 'r) call \<Rightarrow> ctx option" where
  "ctx_of (SetDefaultConfig t db uri) = None"
| "ctx_of (Find c t f skip lim) = Some c"
| "ctx_of (CursorAll c r) = Some c"
| "ctx_of (CursorClose c) = Some c"
| "ctx_of (FindOne c t f) = Some c"
| "ctx_of (Decode r) = None"
| "ctx_of StartSession = None"
| "ctx_of StartTransaction = None"
| "ctx_of (InsertOne c t p) = Some c"
| "ctx_of (UpdateOne c t f u) = Some c"
| "ctx_of (DeleteOne c t f) = Some c"
| "ctx_of (CommitTransaction c) = Some c"
| "ctx_of (EndSession c) = Some c"

fun is_document_op :: "('p, 'r) call \<Rightarrow> bool" where
  "is_document_op (InsertOne c t p) = True"
| "is_document_op (UpdateOne c t f u) = True"
| "is_document_op (DeleteOne c t f) = True"
| "is_document_op other = False"

fun is_commit :: "('p, 'r) call \<Rightarrow> bool" where
  "is_commit (CommitTransaction c) = True"
| "is_commit other = False"

fun is_session_ctx :: "ctx \<Rightarrow> bool" where
  "is_session_ctx (SessionCtx c) = True"
| "is_session_ctx other = False"

definition no_error_driver :: "('p, 'r) driver" where
  "no_error_driver tr x = None"


section \<open>Properties\<close>

subsection \<open>Auxiliary facts\<close>

lemmas read_defs = ReadFrom_def ReadKey_def ReadValue_def ReadPrefix_def ReadSuffix_def
  ReadLimit_def ReadOffset_def ReadResult_def

lemmas write_defs = WriteTo_def WriteKey_def WriteValue_def WriteExpiry_def WriteTTL_def

lemmas delete_defs = DeleteFrom_def DeleteKey_def DeleteValue_def

lemma all_dropWhile_iff: "(\<forall>x\<in>set (dropWhile P s). P x) \<longleftrightarrow> (\<forall>x\<in>set s. P x)"
  by (induction s) auto

lemma TrimSpace_Nil_iff: "TrimSpace s = [] \<longleftrightarrow> (\<forall>r\<in>set s. unicode_IsSpace r)"
  by (simp add: TrimSpace_def dropWhile_eq_Nil_conv all_dropWhile_iff)

lemma Validate_fst:
  "fst (StorageConfig_Validate p) =
     (if TrimSpace (URL p) = [] then
        Some (InvalidConfigurationParameterError ''URL'' ''MongoDB driver expects a valid url'')
      else None)"
  by (simp add: StorageConfig_Validate_def Let_def)

lemma NewStorage_eq:
  "NewStorage drv config =
     (if StorageConfig.Type config = 1 then
        (case drv [] (SetDefaultConfig 3000000000 (DB config) (URL config)) of
           Some err \<Rightarrow> Fatal err
         | None \<Rightarrow>
             Returns (MongoStore \<lparr>Nodes = [URL config], store_Options.Database = DB config,
                        store_Options.Table = []\<rparr>))
      else Returns EmptyStore)"
  by (simp add: NewStorage_def NewMongoStore_def NewEmptyStore_def mongo_Init_def
      mongo_configure_def store_Options_zero_def store_Database_def store_Nodes_def
      empty_Init_def split: option.splits)

lemma TransactionWithCtx_unfold:
  "TransactionWithCtx drv c f =
     (case drv [] StartSession of
        Some err \<Rightarrow> (Some err, [StartSession])
      | None \<Rightarrow>
          (case drv [StartSession] StartTransaction of
             Some err \<Rightarrow> (Some err, [StartSession, StartTransaction, EndSession c])
           | None \<Rightarrow>
               (fst (f [StartSession, StartTransaction] (SessionCtx c)),
                snd (f [StartSession, StartTransaction] (SessionCtx c)) @ [EndSession c])))"
  by (simp add: TransactionWithCtx_def case_prod_beta split: option.splits)

text \<open>
  What holds of the three mutating operations as they are written: once the session and
  the transaction have started, each makes exactly one document operation, and it calls
  \<^verbatim>\<open>CommitTransaction\<close> exactly when that operation returned no error.
\<close>

lemma mongo_Write_document_ops:
  "filter is_document_op (snd (mongo_Write drv c payload opts)) =
     (if drv [] StartSession = None \<and> drv [StartSession] StartTransaction = None
      then [InsertOne c (WriteOptions.Table (apply_opts WriteOptions_zero opts)) payload]
      else [])"
  by (simp add: mongo_Write_def TransactionWithCtx_unfold Let_def split: option.splits)

lemma mongo_Update_document_ops:
  "filter is_document_op (snd (mongo_Update drv c payload opts)) =
     (if drv [] StartSession = None \<and> drv [StartSession] StartTransaction = None
      then [UpdateOne c (WriteOptions.Table (apply_opts WriteOptions_zero opts))
              [(WriteOptions.Key (apply_opts WriteOptions_zero opts),
                WriteOptions.Value (apply_opts WriteOptions_zero opts))]
              [(''$set'', payload)]]
      else [])"
  by (simp add: mongo_Update_def TransactionWithCtx_unfold Let_def split: option.splits)

lemma mongo_Delete_document_ops:
  "filter is_document_op (snd (mongo_Delete drv c opts)) =
     (if drv [] StartSession = None \<and> drv [StartSession] StartTransaction = None
      then [DeleteOne (WithTimeout Background 3000000000)
              (DeleteOptions.Table (apply_opts DeleteOptions_zero opts))
              [(DeleteOptions.Key (apply_opts DeleteOptions_zero opts),
                DeleteOptions.Value (apply_opts DeleteOptions_zero opts))]]
      else [])"
  by (simp add: mongo_Delete_def TransactionWithCtx_unfold Let_def split: option.splits)

lemma mongo_Write_commits:
  "filter is_commit (snd (mongo_Write drv c payload opts)) =
     (if drv [] StartSession = None \<and> drv [StartSession] StartTransaction = None
         \<and> drv [StartSession, StartTransaction]
              (InsertOne c (WriteOptions.Table (apply_opts WriteOptions_zero opts)) payload) = None
      then [CommitTransaction (SessionCtx c)]
      else [])"
  by (simp add: mongo_Write_def TransactionWithCtx_unfold Let_def split: option.splits)

lemma mongo_Write_error_not_committed:
  "drv [StartSession, StartTransaction]
       (InsertOne c (WriteOptions.Table (apply_opts WriteOptions_zero opts)) payload) = Some err
   \<Longrightarrow> drv [] StartSession = None \<Longrightarrow> drv [StartSession] StartTransaction = None
   \<Longrightarrow> mongo_Write drv c payload opts =
         (Some err,
          [StartSession, StartTransaction,
           InsertOne c (WriteOptions.Table (apply_opts WriteOptions_zero opts)) payload,
           EndSession c])"
  by (simp add: mongo_Write_def TransactionWithCtx_unfold Let_def)

text \<open>
  The document operation is given the context that the method passes to
  \<^verbatim>\<open>TransactionWithCtx\<close>, not the session context that the callback receives.
\<close>

lemma mongo_Write_document_op_ctx:
  "\<forall>x\<in>set (snd (mongo_Write drv c payload opts)). is_document_op x \<longrightarrow> ctx_of x = Some c"
  by (simp add: mongo_Write_def TransactionWithCtx_unfold Let_def split: option.splits)

lemma mongo_Update_document_op_ctx:
  "\<forall>x\<in>set (snd (mongo_Update drv c payload opts)). is_document_op x \<longrightarrow> ctx_of x = Some c"
  by (simp add: mongo_Update_def TransactionWithCtx_unfold Let_def split: option.splits)

lemma mongo_Delete_document_op_ctx:
  "\<forall>x\<in>set (snd (mongo_Delete drv c opts)).
     is_document_op x \<longrightarrow> ctx_of x = Some (WithTimeout Background 3000000000)"
  by (simp add: mongo_Delete_def TransactionWithCtx_unfold Let_def split: option.splits)

lemma mongo_Write_ctx:
  "\<forall>x\<in>set (snd (mongo_Write drv c payload opts)). ctx_of x \<in> {None, Some c, Some (SessionCtx c)}"
  by (simp add: mongo_Write_def TransactionWithCtx_unfold Let_def split: option.splits)

lemma mongo_Update_ctx:
  "\<forall>x\<in>set (snd (mongo_Update drv c payload opts)). ctx_of x \<in> {None, Some c, Some (SessionCtx c)}"
  by (simp add: mongo_Update_def TransactionWithCtx_unfold Let_def split: option.splits)

lemma mongo_Read_ctx:
  "\<forall>x\<in>set (snd (mongo_Read drv c opts)). ctx_of x \<in> {None, Some c, Some (SessionCtx c)}"
  by (simp add: mongo_Read_def Let_def split: option.splits)

lemma mongo_List_ctx:
  "\<forall>x\<in>set (snd (mongo_List drv c opts)). ctx_of x \<in> {None, Some c, Some (SessionCtx c)}"
  by (simp add: mongo_List_def Let_def split: option.splits)

lemma mongo_Delete_ctx:
  "\<forall>x\<in>set (snd (mongo_Delete drv c opts)).
     ctx_of x \<in> {None, Some (WithTimeout Background 3000000000),
                  Some (SessionCtx (WithTimeout Background 3000000000))}"
  by (simp add: mongo_Delete_def TransactionWithCtx_unfold Let_def split: option.splits)

lemma mongo_List_trace:
  "\<exists>rest. snd (mongo_List drv c opts) =
      Find c (ReadOptions.Table (apply_opts ReadOptions_zero opts)) []
        (sint (Offset (apply_opts ReadOptions_zero opts)))
        (sint (Limit (apply_opts ReadOptions_zero opts))) # rest
      \<and> (\<forall>x\<in>set rest. \<exists>r. x = CursorAll c r \<or> x = CursorClose c)"
  by (simp add: mongo_List_def Let_def split: option.splits)

lemma mongo_List_cong:
  assumes "ReadOptions.Table (apply_opts ReadOptions_zero opts) =
           ReadOptions.Table (apply_opts ReadOptions_zero opts')"
    and "Offset (apply_opts ReadOptions_zero opts) = Offset (apply_opts ReadOptions_zero opts')"
    and "Limit (apply_opts ReadOptions_zero opts) = Limit (apply_opts ReadOptions_zero opts')"
    and "Result (apply_opts ReadOptions_zero opts) = Result (apply_opts ReadOptions_zero opts')"
  shows "mongo_List drv c opts = mongo_List drv c opts'"
  unfolding mongo_List_def Let_def assms ..

subsection \<open>Reading without a result target\<close>

text \<open>
  C1, as stated: for every storage backend variant, a \<^verbatim>\<open>Read\<close> (or \<^verbatim>\<open>List\<close>) whose
  options set no result target returns \<^verbatim>\<open>_errInvalidResultOption\<close>. The no-op store
  does not: its \<^verbatim>\<open>Read\<close> returns \<^verbatim>\<open>nil\<close> for an empty option list.
\<close>

theorem C1_noop_read_counterexample:
  "Result (apply_opts ReadOptions_zero ([] :: nat ReadOption list)) = None
   \<and> fst (store_Read (no_error_driver :: (unit, nat) driver) EmptyStore Background [])
       \<noteq> Some ErrInvalidResultOption"
  by (simp add: ReadOptions_zero_def empty_Read_def)

text \<open>
  C1, amended: when the options set no result target, \<^verbatim>\<open>Read\<close> of the
  document-oriented store issues its \<^verbatim>\<open>FindOne\<close> query and returns
  \<^verbatim>\<open>_errInvalidResultOption\<close>; \<^verbatim>\<open>List\<close> of that store returns
  \<^verbatim>\<open>_errInvalidResultOption\<close> when its \<^verbatim>\<open>Find\<close> query succeeds and the error of
  the query when it fails; \<^verbatim>\<open>Read\<close> and \<^verbatim>\<open>List\<close> of the no-op store return
  \<^verbatim>\<open>nil\<close> and call nothing.
\<close>

theorem C1_read_without_result:
  assumes "Result (apply_opts ReadOptions_zero opts) = None"
  shows "store_Read drv (MongoStore st) c opts =
           (Some ErrInvalidResultOption,
            [FindOne c (ReadOptions.Table (apply_opts ReadOptions_zero opts))
               [(ReadOptions.Key (apply_opts ReadOptions_zero opts),
                 ReadOptions.Value (apply_opts ReadOptions_zero opts))]])
       \<and> fst (store_List drv (MongoStore st) c opts) =
           (case drv [] (Find c (ReadOptions.Table (apply_opts ReadOptions_zero opts)) []
                          (sint (Offset (apply_opts ReadOptions_zero opts)))
                          (sint (Limit (apply_opts ReadOptions_zero opts)))) of
              Some err \<Rightarrow> Some err
            | None \<Rightarrow> Some ErrInvalidResultOption)
       \<and> store_Read drv EmptyStore c opts = (None, [])
       \<and> store_List drv EmptyStore c opts = (None, [])"
  using assms
  by (simp add: mongo_Read_def mongo_List_def Let_def empty_Read_def empty_List_def
      split: option.splits)

theorem C1_read_without_result_witness:
  "Result (apply_opts ReadOptions_zero
      ([ReadFrom ''db'' ''users'', ReadKey ''id'', ReadValue ''7''] :: nat ReadOption list)) = None
   \<and> store_Read (no_error_driver :: (unit, nat) driver) (MongoStore store_Options_zero) Background
        [ReadFrom ''db'' ''users'', ReadKey ''id'', ReadValue ''7''] =
       (Some ErrInvalidResultOption, [FindOne Background ''users'' [(''id'', ''7'')]])
   \<and> fst (store_List (no_error_driver :: (unit, nat) driver) (MongoStore store_Options_zero) Background
        [ReadFrom ''db'' ''users'', ReadKey ''id'', ReadValue ''7'']) = Some ErrInvalidResultOption"
proof -
  have h: "Result (apply_opts ReadOptions_zero
      ([ReadFrom ''db'' ''users'', ReadKey ''id'', ReadValue ''7''] :: nat ReadOption list)) = None"
    by (simp add: read_defs ReadOptions_zero_def)
  show ?thesis
    using h C1_read_without_result [OF h, of "no_error_driver :: (unit, nat) driver"
        store_Options_zero Background]
    by (simp add: read_defs ReadOptions_zero_def no_error_driver_def)
qed

subsection \<open>The transaction of a write\<close>

text \<open>
  C2: every \<^verbatim>\<open>Write\<close>, \<^verbatim>\<open>Update\<close> and \<^verbatim>\<open>Delete\<close> of the document-oriented store
  executes exactly one document operation inside a transaction and commits only if it
  succeeds. The code makes one document operation and commits exactly when it succeeds
  (\<open>mongo_Write_document_ops\<close>, \<open>mongo_Write_commits\<close>), but it gives the operation the
  context of the caller: of the calls of a successful \<^verbatim>\<open>Write\<close>, only
  \<^verbatim>\<open>CommitTransaction\<close> receives the session context, and the driver runs a call in
  a session only when the call carries that session's context.
\<close>

theorem C2_write_outside_session:
  "mongo_Write (no_error_driver :: (nat, nat) driver) Background 7 [WriteTo ''db'' ''users''] =
     (None,
      [StartSession, StartTransaction, InsertOne Background ''users'' 7,
       CommitTransaction (SessionCtx Background), EndSession Background])
   \<and> ctx_of (InsertOne Background ''users'' 7 :: (nat, nat) call) = Some Background
   \<and> \<not> is_session_ctx Background"
  by (simp add: mongo_Write_def TransactionWithCtx_def no_error_driver_def WriteTo_def
      WriteOptions_zero_def)

subsection \<open>The selectors\<close>

text \<open>
  C3: \<^verbatim>\<open>NewStorage\<close> builds the document-oriented store for storage type 1 and the
  no-op store for every other type; \<^verbatim>\<open>NewCache\<close> builds the Redis cache for cache
  type 2 and the Freecache cache for type 1 and every other type. The store is returned
  unless its \<^verbatim>\<open>Init\<close> fails, which ends the process; \<^verbatim>\<open>Init\<close> of the no-op
  store never fails.
\<close>

theorem C3_selector_dispatch:
  "NewStorage drv config =
     (if StorageConfig.Type config = 1 then
        (case drv [] (SetDefaultConfig 3000000000 (DB config) (URL config)) of
           Some err \<Rightarrow> Fatal err
         | None \<Rightarrow>
             Returns (MongoStore \<lparr>Nodes = [URL config], store_Options.Database = DB config,
                        store_Options.Table = []\<rparr>))
      else Returns EmptyStore)
   \<and> NewCache cc =
     (if CacheConfig.Type cc = 2 then
        \<lparr>store = newRedis (Address cc) (Username cc) (Password cc) (CacheConfig.Database cc),
         name = ''Redis''\<rparr>
      else \<lparr>store = newMemory (Size cc), name = ''Freecache''\<rparr>)"
  by (simp add: NewStorage_eq NewCache_def)

theorem C3_selector_dispatch_witness:
  "NewStorage (no_error_driver :: (unit, nat) driver)
      \<lparr>StorageConfig.Type = 1, URL = [109], DB = [100]\<rparr> =
     Returns (MongoStore \<lparr>Nodes = [[109]], store_Options.Database = [100],
                store_Options.Table = []\<rparr>)
   \<and> NewStorage (no_error_driver :: (unit, nat) driver)
      \<lparr>StorageConfig.Type = 0, URL = [109], DB = [100]\<rparr> = Returns EmptyStore
   \<and> name (NewCache \<lparr>CacheConfig.Type = 2, Size = 10, Address = [97], Username = [],
        Password = [], CacheConfig.Database = 0\<rparr>) = ''Redis''
   \<and> name (NewCache \<lparr>CacheConfig.Type = 7, Size = 10, Address = [97], Username = [],
        Password = [], CacheConfig.Database = 0\<rparr>) = ''Freecache''"
  using C3_selector_dispatch [of "no_error_driver :: (unit, nat) driver"
      "\<lparr>StorageConfig.Type = 1, URL = [109], DB = [100]\<rparr>"
      "\<lparr>CacheConfig.Type = 2, Size = 10, Address = [97], Username = [],
        Password = [], CacheConfig.Database = 0\<rparr>"]
    C3_selector_dispatch [of "no_error_driver :: (unit, nat) driver"
      "\<lparr>StorageConfig.Type = 0, URL = [109], DB = [100]\<rparr>"
      "\<lparr>CacheConfig.Type = 7, Size = 10, Address = [97], Username = [],
        Password = [], CacheConfig.Database = 0\<rparr>"]
  by (simp add: no_error_driver_def)

subsection \<open>Validation\<close>




subsection \<open>Deadlines\<close>

text \<open>
  C6: every call that \<^verbatim>\<open>Delete\<close> of the document-oriented store makes carries the
  context \<^verbatim>\<open>context.WithTimeout(context.Background(), 3*time.Second)\<close> or the session
  context derived from it, whatever context the caller supplied, so that the result does not
  depend on the caller's context; every call that \<^verbatim>\<open>Write\<close>, \<^verbatim>\<open>Update\<close>,
  \<^verbatim>\<open>Read\<close> and \<^verbatim>\<open>List\<close> make carries the caller's context, unchanged, or the
  session context derived from it.
\<close>

theorem C6_delete_deadline:
  "mongo_Delete drv c dopts = mongo_Delete drv c' dopts
   \<and> (\<forall>x\<in>set (snd (mongo_Delete drv c dopts)).
         ctx_of x \<in> {None, Some (WithTimeout Background 3000000000),
                      Some (SessionCtx (WithTimeout Background 3000000000))})
   \<and> (\<forall>x\<in>set (snd (mongo_Write drv c payload wopts)).
         ctx_of x \<in> {None, Some c, Some (SessionCtx c)})
   \<and> (\<forall>x\<in>set (snd (mongo_Update drv c payload wopts)).
         ctx_of x \<in> {None, Some c, Some (SessionCtx c)})
   \<and> (\<forall>x\<in>set (snd (mongo_Read drv c ropts)). ctx_of x \<in> {None, Some c, Some (SessionCtx c)})
   \<and> (\<forall>x\<in>set (snd (mongo_List drv c ropts)). ctx_of x \<in> {None, Some c, Some (SessionCtx c)})"
proof -
  have "mongo_Delete drv c dopts = mongo_Delete drv c' dopts"
    by (simp add: mongo_Delete_def)
  then show ?thesis
    using mongo_Delete_ctx [of drv c dopts] mongo_Write_ctx [of drv c payload wopts]
      mongo_Update_ctx [of drv c payload wopts] mongo_Read_ctx [of drv c ropts]
      mongo_List_ctx [of drv c ropts]
    by blast
qed

theorem C6_delete_deadline_witness:
  "snd (mongo_Delete (no_error_driver :: (nat, nat) driver) (WithTimeout Background 60000000000)
          [DeleteFrom ''db'' ''users'', DeleteKey ''id'', DeleteValue ''7'']) =
     [StartSession, StartTransaction,
      DeleteOne (WithTimeout Background 3000000000) ''users'' [(''id'', ''7'')],
      CommitTransaction (SessionCtx (WithTimeout Background 3000000000)),
      EndSession (WithTimeout Background 3000000000)]
   \<and> list_all (\<lambda>x. ctx_of x \<in> {None, Some (WithTimeout Background 3000000000),
                      Some (SessionCtx (WithTimeout Background 3000000000))})
        (snd (mongo_Delete (no_error_driver :: (nat, nat) driver)
          (WithTimeout Background 60000000000)
          [DeleteFrom ''db'' ''users'', DeleteKey ''id'', DeleteValue ''7'']))
   \<and> snd (mongo_Write (no_error_driver :: (nat, nat) driver) (WithTimeout Background 60000000000) 7
          [WriteTo ''db'' ''users'']) =
     [StartSession, StartTransaction,
      InsertOne (WithTimeout Background 60000000000) ''users'' 7,
      CommitTransaction (SessionCtx (WithTimeout Background 60000000000)),
      EndSession (WithTimeout Background 60000000000)]
   \<and> list_all (\<lambda>x. ctx_of x \<in> {None, Some (WithTimeout Background 60000000000),
                      Some (SessionCtx (WithTimeout Background 60000000000))})
        (snd (mongo_Write (no_error_driver :: (nat, nat) driver)
          (WithTimeout Background 60000000000) 7 [WriteTo ''db'' ''users'']))"
  using C6_delete_deadline [of "no_error_driver :: (nat, nat) driver"
      "WithTimeout Background 60000000000"
      "[DeleteFrom ''db'' ''users'', DeleteKey ''id'', DeleteValue ''7'']"
      Background 7 "[WriteTo ''db'' ''users'']" "[]"]
  by (simp add: mongo_Delete_def mongo_Write_def TransactionWithCtx_def no_error_driver_def
      delete_defs write_defs DeleteOptions_zero_def WriteOptions_zero_def Let_def)

subsection \<open>Listing\<close>

text \<open>
  C7: \<^verbatim>\<open>List\<close> of the document-oriented store queries the table with the empty filter,
  skipping \<^verbatim>\<open>Offset\<close> and limiting to \<^verbatim>\<open>Limit\<close> documents, and makes no other
  query; two option lists that lead to the same table, offset, limit and result target
  give the same calls and the same result, so the prefix, suffix, key and value of the
  options have no effect.
\<close>

theorem C7_list_is_unfiltered:
  "(\<exists>rest. snd (mongo_List drv c opts) =
       Find c (ReadOptions.Table (apply_opts ReadOptions_zero opts)) []
         (sint (Offset (apply_opts ReadOptions_zero opts)))
         (sint (Limit (apply_opts ReadOptions_zero opts))) # rest
       \<and> (\<forall>x\<in>set rest. \<exists>r. x = CursorAll c r \<or> x = CursorClose c))
   \<and> (ReadOptions.Table (apply_opts ReadOptions_zero opts) =
        ReadOptions.Table (apply_opts ReadOptions_zero opts')
      \<and> Offset (apply_opts ReadOptions_zero opts) = Offset (apply_opts ReadOptions_zero opts')
      \<and> Limit (apply_opts ReadOptions_zero opts) = Limit (apply_opts ReadOptions_zero opts')
      \<and> Result (apply_opts ReadOptions_zero opts) = Result (apply_opts ReadOptions_zero opts')
      \<longrightarrow> mongo_List drv c opts = mongo_List drv c opts')"
  using mongo_List_trace [of drv c opts] mongo_List_cong [of opts opts' drv c]
  by blast

theorem C7_list_is_unfiltered_witness:
  "mongo_List (no_error_driver :: (unit, nat) driver) Background
      [ReadFrom ''db'' ''users'', ReadOffset 5, ReadLimit 10, ReadResult (Some 0),
       ReadPrefix ''a'', ReadSuffix ''z'', ReadKey ''id'', ReadValue ''7''] =
     mongo_List no_error_driver Background
      [ReadFrom ''db'' ''users'', ReadOffset 5, ReadLimit 10, ReadResult (Some 0)]
   \<and> mongo_List (no_error_driver :: (unit, nat) driver) Background
      [ReadFrom ''db'' ''users'', ReadOffset 5, ReadLimit 10, ReadResult (Some 0)] =
     (None, [Find Background ''users'' [] 5 10, CursorAll Background 0, CursorClose Background])"
  using C7_list_is_unfiltered [of "no_error_driver :: (unit, nat) driver" Background
      "[ReadFrom ''db'' ''users'', ReadOffset 5, ReadLimit 10, ReadResult (Some 0),
        ReadPrefix ''a'', ReadSuffix ''z'', ReadKey ''id'', ReadValue ''7'']"
      "[ReadFrom ''db'' ''users'', ReadOffset 5, ReadLimit 10, ReadResult (Some 0)]"]
  by (simp add: mongo_List_def no_error_driver_def read_defs ReadOptions_zero_def)

subsection \<open>Builder steps\<close>

text \<open>
  C8: two builder steps of the option model that assign distinct fields give the same
  options in either order, and of two steps that assign the same fields the one applied
  last wins: the options are those that the last step alone gives, and every step leaves
  its own argument in each field it assigns, whatever the options were before it. Any two
  steps of one family are in one of the two cases. This holds for the read, the write and
  the delete options.
\<close>

theorem C8_builder_steps_commute:
  "(read_sets a \<inter> read_sets b = {} \<longrightarrow>
      read_step a (read_step b l) = read_step b (read_step a l))
   \<and> (read_sets a = read_sets b \<longrightarrow> read_step b (read_step a l) = read_step b l)
   \<and> (read_sets a \<inter> read_sets b = {} \<or> read_sets a = read_sets b)
   \<and> (write_sets aw \<inter> write_sets bw = {} \<longrightarrow>
      write_step aw (write_step bw w) = write_step bw (write_step aw w))
   \<and> (write_sets aw = write_sets bw \<longrightarrow> write_step bw (write_step aw w) = write_step bw w)
   \<and> (write_sets aw \<inter> write_sets bw = {} \<or> write_sets aw = write_sets bw)
   \<and> (delete_sets ad \<inter> delete_sets bd = {} \<longrightarrow>
      delete_step ad (delete_step bd d) = delete_step bd (delete_step ad d))
   \<and> (delete_sets ad = delete_sets bd \<longrightarrow> delete_step bd (delete_step ad d) = delete_step bd d)
   \<and> (delete_sets ad \<inter> delete_sets bd = {} \<or> delete_sets ad = delete_sets bd)
   \<and> ReadOptions.Database (read_step (SReadFrom vd vt) l) = vd
   \<and> ReadOptions.Table (read_step (SReadFrom vd vt) l) = vt
   \<and> ReadOptions.Key (read_step (SReadKey vs) l) = vs
   \<and> ReadOptions.Value (read_step (SReadValue vs) l) = vs
   \<and> Prefix (read_step (SReadPrefix vs) l) = vs
   \<and> Suffix (read_step (SReadSuffix vs) l) = vs
   \<and> Limit (read_step (SReadLimit vn) l) = vn
   \<and> Offset (read_step (SReadOffset vn) l) = vn
   \<and> Result (read_step (SReadResult vr) l) = vr
   \<and> WriteOptions.Database (write_step (SWriteTo vd vt) w) = vd
   \<and> WriteOptions.Table (write_step (SWriteTo vd vt) w) = vt
   \<and> WriteOptions.Key (write_step (SWriteKey vs) w) = vs
   \<and> WriteOptions.Value (write_step (SWriteValue vs) w) = vs
   \<and> Expiry (write_step (SWriteExpiry vi) w) = vi
   \<and> TTL (write_step (SWriteTTL vi) w) = vi
   \<and> DeleteOptions.Database (delete_step (SDeleteFrom vd vt) d) = vd
   \<and> DeleteOptions.Table (delete_step (SDeleteFrom vd vt) d) = vt
   \<and> DeleteOptions.Key (delete_step (SDeleteKey vs) d) = vs
   \<and> DeleteOptions.Value (delete_step (SDeleteValue vs) d) = vs"
proof -
  have r: "(read_sets a \<inter> read_sets b = {} \<longrightarrow>
      read_step a (read_step b l) = read_step b (read_step a l))
   \<and> (read_sets a = read_sets b \<longrightarrow> read_step b (read_step a l) = read_step b l)
   \<and> (read_sets a \<inter> read_sets b = {} \<or> read_sets a = read_sets b)"
    by (cases a; cases b) (simp_all add: read_defs)
  have w: "(write_sets aw \<inter> write_sets bw = {} \<longrightarrow>
      write_step aw (write_step bw w) = write_step bw (write_step aw w))
   \<and> (write_sets aw = write_sets bw \<longrightarrow> write_step bw (write_step aw w) = write_step bw w)
   \<and> (write_sets aw \<inter> write_sets bw = {} \<or> write_sets aw = write_sets bw)"
    by (cases aw; cases bw) (simp_all add: write_defs)
  have d: "(delete_sets ad \<inter> delete_sets bd = {} \<longrightarrow>
      delete_step ad (delete_step bd d) = delete_step bd (delete_step ad d))
   \<and> (delete_sets ad = delete_sets bd \<longrightarrow> delete_step bd (delete_step ad d) = delete_step bd d)
   \<and> (delete_sets ad \<inter> delete_sets bd = {} \<or> delete_sets ad = delete_sets bd)"
    by (cases ad; cases bd) (simp_all add: delete_defs)
  have st: "ReadOptions.Database (read_step (SReadFrom vd vt) l) = vd
     \<and> ReadOptions.Table (read_step (SReadFrom vd vt) l) = vt
     \<and> ReadOptions.Key (read_step (SReadKey vs) l) = vs
     \<and> ReadOptions.Value (read_step (SReadValue vs) l) = vs
     \<and> Prefix (read_step (SReadPrefix vs) l) = vs
     \<and> Suffix (read_step (SReadSuffix vs) l) = vs
     \<and> Limit (read_step (SReadLimit vn) l) = vn
     \<and> Offset (read_step (SReadOffset vn) l) = vn
     \<and> Result (read_step (SReadResult vr) l) = vr
     \<and> WriteOptions.Database (write_step (SWriteTo vd vt) w) = vd
     \<and> WriteOptions.Table (write_step (SWriteTo vd vt) w) = vt
     \<and> WriteOptions.Key (write_step (SWriteKey vs) w) = vs
     \<and> WriteOptions.Value (write_step (SWriteValue vs) w) = vs
     \<and> Expiry (write_step (SWriteExpiry vi) w) = vi
     \<and> TTL (write_step (SWriteTTL vi) w) = vi
     \<and> DeleteOptions.Database (delete_step (SDeleteFrom vd vt) d) = vd
     \<and> DeleteOptions.Table (delete_step (SDeleteFrom vd vt) d) = vt
     \<and> DeleteOptions.Key (delete_step (SDeleteKey vs) d) = vs
     \<and> DeleteOptions.Value (delete_step (SDeleteValue vs) d) = vs"
    by (simp add: read_defs write_defs delete_defs)
  from r w d st show ?thesis by simp
qed

theorem C8_builder_steps_commute_witness:
  "read_sets (SReadFrom ''db'' ''users'' :: nat ReadStep) \<inter> read_sets (SReadLimit 10 :: nat ReadStep) = {}
   \<and> ReadFrom ''db'' ''users'' (ReadLimit 10 (ReadOptions_zero :: nat ReadOptions)) =
       ReadLimit 10 (ReadFrom ''db'' ''users'' ReadOptions_zero)
   \<and> write_sets (SWriteTTL 5) = write_sets (SWriteTTL 9)
   \<and> WriteTTL 9 (WriteTTL 5 WriteOptions_zero) = WriteTTL 9 WriteOptions_zero
   \<and> TTL (WriteTTL 9 (WriteTTL 5 WriteOptions_zero)) = 9
   \<and> Suffix (ReadSuffix ''z'' (ReadSuffix ''a'' (ReadOptions_zero :: nat ReadOptions))) = ''z''
   \<and> delete_sets (SDeleteKey ''id'') \<inter> delete_sets (SDeleteValue ''7'') = {}
   \<and> DeleteKey ''id'' (DeleteValue ''7'' DeleteOptions_zero) =
       DeleteValue ''7'' (DeleteKey ''id'' DeleteOptions_zero)"
  using C8_builder_steps_commute [of "SReadFrom ''db'' ''users'' :: nat ReadStep" "SReadLimit 10"
      ReadOptions_zero "SWriteTTL 5" "SWriteTTL 9" WriteOptions_zero
      "SDeleteKey ''id''" "SDeleteValue ''7''" DeleteOptions_zero]
    C8_builder_steps_commute [where a = "SReadFrom ''db'' ''users'' :: nat ReadStep"
      and b = "SReadLimit 10" and l = "ReadSuffix ''a'' ReadOptions_zero"
      and aw = "SWriteTTL 5" and bw = "SWriteTTL 9" and w = "WriteTTL 5 WriteOptions_zero"
      and ad = "SDeleteKey ''id''" and bd = "SDeleteValue ''7''" and d = DeleteOptions_zero
      and vd = "''db''" and vt = "''users''" and vs = "''z''" and vn = 10 and vr = None
      and vi = 9]
  by simp

subsection \<open>The URL of every storage type\<close>

text \<open>
  C9: for every storage type, \<^verbatim>\<open>StorageConfig.Validate\<close> returns the configuration
  error with parameter URL exactly when the URL is empty or consists of white space only;
  a configuration that selects the no-op store passes only with a URL that has another
  character.
\<close>

theorem C9_url_required_for_every_type:
  "fst (StorageConfig_Validate p) =
     (if (\<forall>r\<in>set (URL p). unicode_IsSpace r) then
        Some (InvalidConfigurationParameterError ''URL'' ''MongoDB driver expects a valid url'')
      else None)"
  by (simp add: Validate_fst TrimSpace_Nil_iff)

theorem C9_url_required_for_every_type_witness:
  "list_all unicode_IsSpace (URL \<lparr>StorageConfig.Type = 0, URL = [32, 160], DB = []\<rparr>)
   \<and> fst (StorageConfig_Validate \<lparr>StorageConfig.Type = 0, URL = [32, 160], DB = []\<rparr>) =
       Some (InvalidConfigurationParameterError ''URL'' ''MongoDB driver expects a valid url'')
   \<and> fst (StorageConfig_Validate \<lparr>StorageConfig.Type = 0, URL = [32, 109], DB = []\<rparr>) = None"
  using C9_url_required_for_every_type [of "\<lparr>StorageConfig.Type = 0, URL = [32, 160], DB = []\<rparr>"]
    C9_url_required_for_every_type [of "\<lparr>StorageConfig.Type = 0, URL = [32, 109], DB = []\<rparr>"]
  by (simp add: unicode_IsSpace_def)

subsection \<open>The first node\<close>

text \<open>
  C10: \<^verbatim>\<open>Init\<close> of the document-oriented store panics exactly when the node list is
  empty after the options have been applied; \<^verbatim>\<open>NewStorage\<close> passes the options that
  leave exactly one node, the configured URL, and never panics.
\<close>

theorem C10_init_needs_a_node:
  "(mongo_Init drv options opts = Panics) = (Nodes (apply_opts options opts) = [])
   \<and> Nodes (apply_opts options [store_Database (DB config), store_Nodes [URL config]]) = [URL config]
   \<and> NewStorage drv config \<noteq> Panics"
  by (simp add: mongo_Init_def mongo_configure_def Let_def NewStorage_eq store_Database_def
      store_Nodes_def split: list.splits option.splits)

theorem C10_init_needs_a_node_witness:
  "mongo_Init (no_error_driver :: (unit, nat) driver) store_Options_zero [store_Database [100]] = Panics
   \<and> mongo_Init (no_error_driver :: (unit, nat) driver) store_Options_zero
        [store_Database [100], store_Nodes [[109]]] =
       Returns (None, \<lparr>Nodes = [[109]], store_Options.Database = [100], store_Options.Table = []\<rparr>)"
  using C10_init_needs_a_node [of "no_error_driver :: (unit, nat) driver" store_Options_zero
      "[store_Database [100]]"]
  by (simp add: mongo_Init_def mongo_configure_def store_Options_zero_def store_Database_def
      store_Nodes_def no_error_driver_def)

end
